theory Spec2Isabelle
  imports Complex_Main
begin

section \<open>Python values, errors and attribute access\<close>

text \<open>
  The library computes with Python floats (and the occasional int literal such as
  \<open>40\<close> or \<open>0\<close>). Numbers are modelled as mathematical reals: comparisons, the
  clamps and the shape of every expression are those of the source, rounding and the
  infinities are not modelled. The one float kept apart is \<open>nan\<close>, which is unordered:
  every comparison with it is false, and arithmetic with it gives \<open>nan\<close>. A Python
  value is \<open>None\<close>, a number or \<open>nan\<close>.
\<close>

datatype pyval = PyNone | Num real | NaN

text \<open>
  The exceptions the modelled code can raise: reading an attribute that was never
  assigned, comparing or computing with \<open>None\<close>, and dividing by zero (Python raises
  for float division by zero; it does not return an infinity).
\<close>

datatype error = AttributeError string | TypeError | ZeroDivisionError

definition and_then :: "error + 'a \<Rightarrow> ('a \<Rightarrow> error + 'b) \<Rightarrow> error + 'b" where
  "and_then m f = (case m of Inl e \<Rightarrow> Inl e | Inr v \<Rightarrow> f v)"

text \<open>Scientific notation of the source's literals: \<open>sci m n\<close> is \<open>m\<close>e\<open>n\<close>.\<close>

definition sci :: "real \<Rightarrow> int \<Rightarrow> real" where
  "sci m n = (if 0 \<le> n then m * 10 ^ nat n else m / 10 ^ nat (- n))"

fun py_lt :: "pyval \<Rightarrow> pyval \<Rightarrow> error + bool" where
  "py_lt (Num a) (Num b) = Inr (a < b)"
| "py_lt PyNone _ = Inl TypeError"
| "py_lt _ PyNone = Inl TypeError"
| "py_lt _ _ = Inr False"

fun py_gt :: "pyval \<Rightarrow> pyval \<Rightarrow> error + bool" where
  "py_gt (Num a) (Num b) = Inr (a > b)"
| "py_gt PyNone _ = Inl TypeError"
| "py_gt _ PyNone = Inl TypeError"
| "py_gt _ _ = Inr False"

fun py_ge :: "pyval \<Rightarrow> pyval \<Rightarrow> error + bool" where
  "py_ge (Num a) (Num b) = Inr (a \<ge> b)"
| "py_ge PyNone _ = Inl TypeError"
| "py_ge _ PyNone = Inl TypeError"
| "py_ge _ _ = Inr False"

fun py_mul :: "pyval \<Rightarrow> pyval \<Rightarrow> error + pyval" where
  "py_mul (Num a) (Num b) = Inr (Num (a * b))"
| "py_mul PyNone _ = Inl TypeError"
| "py_mul _ PyNone = Inl TypeError"
| "py_mul _ _ = Inr NaN"

fun py_truediv :: "pyval \<Rightarrow> pyval \<Rightarrow> error + pyval" where
  "py_truediv (Num a) (Num b) = (if b = 0 then Inl ZeroDivisionError else Inr (Num (a / b)))"
| "py_truediv PyNone _ = Inl TypeError"
| "py_truediv _ PyNone = Inl TypeError"
| "py_truediv NaN (Num b) = (if b = 0 then Inl ZeroDivisionError else Inr NaN)"
| "py_truediv _ NaN = Inr NaN"

section \<open>The fluid instance\<close>

text \<open>
  The attributes a fluid object can carry. An attribute that has not been assigned yet
  is \<open>None\<close> here (reading it raises \<open>AttributeError\<close>); an attribute assigned
  Python's \<open>None\<close> is \<open>Some PyNone\<close>.
\<close>

record fluid =
  t_min :: "pyval option"
  t_max :: "pyval option"
  c_min :: "pyval option"
  c_max :: "pyval option"
  c :: "pyval option"
  t_freeze :: "pyval option"
  x_base :: "pyval option"
  t_base :: "pyval option"

definition new_object :: fluid where
  "new_object = \<lparr>t_min = None, t_max = None, c_min = None, c_max = None, c = None,
     t_freeze = None, x_base = None, t_base = None\<rparr>"

definition getattr :: "string \<Rightarrow> pyval option \<Rightarrow> error + pyval" where
  "getattr name a = (case a of None \<Rightarrow> Inl (AttributeError name) | Some v \<Rightarrow> Inr v)"

section \<open>base_fluid.py: BaseFluid\<close>

text \<open>
  \<open>_set_temperature_limits\<close>: the comparison \<open>t_min >= t_max\<close> is evaluated (and
  raises \<open>TypeError\<close> on \<open>None\<close>); in its true branch a \<open>ValueError\<close> object is built
  and dropped, there is no \<open>raise\<close>, so the outcome of the comparison is not used
  and both branches continue with the assignments.
\<close>

definition set_temperature_limits :: "fluid \<Rightarrow> pyval \<Rightarrow> pyval \<Rightarrow> error + fluid" where
  "set_temperature_limits self tmin tmax =
     and_then (py_ge tmin tmax) (\<lambda>_.
       Inr (self\<lparr>t_min := Some tmin, t_max := Some tmax\<rparr>))"

text \<open>
  \<open>_set_concentration\<close>: the same dropped \<open>ValueError\<close> for \<open>c_min >= c_max\<close>, then
  the bounds are stored and \<open>conc\<close> is clamped into them; the \<open>UserWarning\<close> objects
  are built and dropped as well.
\<close>

definition set_concentration :: "fluid \<Rightarrow> pyval \<Rightarrow> pyval \<Rightarrow> pyval \<Rightarrow> error + fluid" where
  "set_concentration self conc cmin cmax =
     and_then (py_ge cmin cmax) (\<lambda>_.
       let self = self\<lparr>c_min := Some cmin, c_max := Some cmax\<rparr> in
       and_then (getattr ''c_min'' (c_min self)) (\<lambda>lo.
       and_then (py_lt conc lo) (\<lambda>below.
         if below then Inr (self\<lparr>c := Some lo\<rparr>)
         else
           and_then (getattr ''c_max'' (c_max self)) (\<lambda>hi.
           and_then (py_gt conc hi) (\<lambda>above.
             if above then Inr (self\<lparr>c := Some hi\<rparr>)
             else Inr (self\<lparr>c := Some conc\<rparr>))))))"

text \<open>\<open>_check_concentration\<close>: the runtime clamp of a concentration.\<close>

definition check_concentration :: "fluid \<Rightarrow> pyval \<Rightarrow> error + pyval" where
  "check_concentration self conc =
     and_then (getattr ''c_min'' (c_min self)) (\<lambda>lo.
     and_then (py_lt conc lo) (\<lambda>below.
       if below then Inr lo
       else
         and_then (getattr ''c_max'' (c_max self)) (\<lambda>hi.
         and_then (py_gt conc hi) (\<lambda>above.
           if above then Inr hi else Inr conc))))"

text \<open>\<open>_check_temperature\<close>: the runtime clamp of a temperature.\<close>

definition check_temperature :: "fluid \<Rightarrow> pyval \<Rightarrow> error + pyval" where
  "check_temperature self temp =
     and_then (getattr ''t_min'' (t_min self)) (\<lambda>lo.
     and_then (py_lt temp lo) (\<lambda>below.
       if below then Inr lo
       else
         and_then (getattr ''t_max'' (t_max self)) (\<lambda>hi.
         and_then (py_gt temp hi) (\<lambda>above.
           if above then Inr hi else Inr temp))))"

text \<open>
  \<open>BaseFluid.__init__(t_min, t_max, conc=None, c_min=None, c_max=None)\<close>, run on a
  fresh object. The concentration attributes are created only when \<open>conc\<close> is not
  \<open>None\<close>.
\<close>

definition BaseFluid_init :: "pyval \<Rightarrow> pyval \<Rightarrow> pyval \<Rightarrow> pyval \<Rightarrow> pyval \<Rightarrow> error + fluid" where
  "BaseFluid_init tmin tmax conc cmin cmax =
     (let self = new_object\<lparr>t_min := Some PyNone, t_max := Some PyNone\<rparr> in
      and_then (set_temperature_limits self tmin tmax) (\<lambda>self.
        if conc \<noteq> PyNone then
          set_concentration
            (self\<lparr>c_min := Some PyNone, c_max := Some PyNone, c := Some PyNone\<rparr>)
            conc cmin cmax
        else Inr self))"

text \<open>
  The four abstract methods \<open>viscosity\<close>, \<open>specific_heat\<close>, \<open>density\<close> and
  \<open>conductivity\<close> are supplied by the derived class: a method table, each entry
  taking \<open>self\<close> and the temperature.
\<close>

record fluid_methods =
  viscosity :: "fluid \<Rightarrow> pyval \<Rightarrow> error + pyval"
  specific_heat :: "fluid \<Rightarrow> pyval \<Rightarrow> error + pyval"
  density :: "fluid \<Rightarrow> pyval \<Rightarrow> error + pyval"
  conductivity :: "fluid \<Rightarrow> pyval \<Rightarrow> error + pyval"

definition mu :: "fluid_methods \<Rightarrow> fluid \<Rightarrow> pyval \<Rightarrow> error + pyval" where
  "mu M self temp = viscosity M self temp"

definition cp :: "fluid_methods \<Rightarrow> fluid \<Rightarrow> pyval \<Rightarrow> error + pyval" where
  "cp M self temp = specific_heat M self temp"

definition rho :: "fluid_methods \<Rightarrow> fluid \<Rightarrow> pyval \<Rightarrow> error + pyval" where
  "rho M self temp = density M self temp"

definition k :: "fluid_methods \<Rightarrow> fluid \<Rightarrow> pyval \<Rightarrow> error + pyval" where
  "k M self temp = conductivity M self temp"

text \<open>
  \<open>prandtl\<close>: \<open>self.cp(temp) * self.mu(temp) / self.k(temp)\<close>, evaluated left to
  right: \<open>cp\<close>, \<open>mu\<close>, the product, \<open>k\<close>, the quotient.
\<close>

definition prandtl :: "fluid_methods \<Rightarrow> fluid \<Rightarrow> pyval \<Rightarrow> error + pyval" where
  "prandtl M self temp =
     and_then (cp M self temp) (\<lambda>a.
     and_then (mu M self temp) (\<lambda>b.
     and_then (py_mul a b) (\<lambda>ab.
     and_then (k M self temp) (\<lambda>d.
       py_truediv ab d))))"

text \<open>\<open>pr(temp=0.0)\<close>; \<open>pr_default\<close> is the call without an argument.\<close>

definition pr :: "fluid_methods \<Rightarrow> fluid \<Rightarrow> pyval \<Rightarrow> error + pyval" where
  "pr M self temp = prandtl M self temp"

definition pr_default :: "fluid_methods \<Rightarrow> fluid \<Rightarrow> error + pyval" where
  "pr_default M self = pr M self (Num 0.0)"

text \<open>
  \<open>thermal_diffusivity\<close>: \<open>self.k(temp) / (self.rho(temp) * self.cp(temp))\<close>, evaluated
  left to right: \<open>k\<close>, \<open>rho\<close>, \<open>cp\<close>, the product, the quotient.
\<close>

definition thermal_diffusivity :: "fluid_methods \<Rightarrow> fluid \<Rightarrow> pyval \<Rightarrow> error + pyval" where
  "thermal_diffusivity M self temp =
     and_then (k M self temp) (\<lambda>a.
     and_then (rho M self temp) (\<lambda>b.
     and_then (cp M self temp) (\<lambda>d.
     and_then (py_mul b d) (\<lambda>bd.
       py_truediv a bd))))"

definition alpha :: "fluid_methods \<Rightarrow> fluid \<Rightarrow> pyval \<Rightarrow> error + pyval" where
  "alpha M self temp = thermal_diffusivity M self temp"

section \<open>ethyl_alcohol.py: EthylAlcohol\<close>

definition coefficient_viscosity :: "real list list" where
  "coefficient_viscosity =
    [[sci 1.4740 0, sci (- 4.7450) (- 2), sci 4.3140 (- 4), sci (- 3.0230) (- 6)],
     [sci 1.5650 (- 2), sci (- 4.1060) (- 5), sci (- 5.1350) (- 6), sci 7.0040 (- 8)],
     [sci (- 8.4350) (- 4), sci 1.6400 (- 5), sci (- 1.0910) (- 7), sci (- 1.9670) (- 9)],
     [sci 7.5520 (- 6), sci (- 1.1180) (- 7), sci 1.8990 (- 9)],
     [sci 1.5290 (- 7), sci (- 9.4810) (- 10)],
     [sci (- 4.1300) (- 9)]]"

definition coefficient_specific_heat :: "real list list" where
  "coefficient_specific_heat =
    [[sci 4.2040 3, sci 2.3190 0, sci (- 3.0420) (- 2), sci 6.8600 (- 4)],
     [sci (- 2.1020) 1, sci 4.9270 (- 1), sci (- 3.0720) (- 3), sci (- 5.6900) (- 5)],
     [sci (- 3.7140) (- 1), sci (- 2.3350) (- 3), sci (- 1.9600) (- 5), sci 7.4610 (- 7)],
     [sci 1.7430 (- 2), sci (- 2.9690) (- 4), sci 1.9010 (- 6)],
     [sci (- 6.2920) (- 5), sci 5.3530 (- 6)],
     [sci (- 8.2900) (- 6)]]"

definition coefficient_conductivity :: "real list list" where
  "coefficient_conductivity =
    [[sci 4.0670 (- 1), sci 6.7750 (- 4), sci 3.1050 (- 7), sci (- 2.0000) (- 8)],
     [sci (- 5.0080) (- 3), sci (- 2.3770) (- 5), sci (- 3.2160) (- 8), sci 8.3620 (- 11)],
     [sci 2.8010 (- 5), sci 2.6690 (- 7), sci (- 3.6060) (- 9), sci 1.5520 (- 11)],
     [sci (- 2.0090) (- 8), sci (- 6.8130) (- 9), sci 1.4290 (- 10)],
     [sci (- 1.5060) (- 9), sci 1.1670 (- 10)],
     [sci (- 1.6530) (- 11)]]"

definition coefficient_density :: "real list list" where
  "coefficient_density =
    [[sci 9.6190 2, sci (- 5.2220) (- 1), sci (- 3.2810) (- 3), sci 1.5690 (- 5)],
     [sci (- 1.4330) 0, sci (- 1.9890) (- 2), sci 1.8700 (- 4), sci (- 9.1540) (- 7)],
     [sci (- 2.2600) (- 2), sci 2.2810 (- 4), sci (- 8.5810) (- 8), sci 4.0560 (- 9)],
     [sci (- 1.6900) (- 4), sci 8.5940 (- 6), sci (- 9.6070) (- 8)],
     [sci 1.2910 (- 5), sci (- 1.5900) (- 7)],
     [sci (- 8.3180) (- 8)]]"

text \<open>
  \<open>calc_freeze_point\<close>. Below the threshold the result is the literal \<open>0\<close>. Otherwise
  \<open>x\<close> is clamped by \<open>_check_concentration\<close>, \<open>c_pow\<close> lists its powers 0 to 3, and
  Python's \<open>sum\<close> adds the products of the zipped lists from the left, starting at 0.
  For \<open>nan\<close> the powers beyond the zeroth are \<open>nan\<close>, and so is the sum.
\<close>

definition coefficient_freeze :: "real list" where
  "coefficient_freeze = [sci 2.4685 0, sci (- 9.8592) (- 1), sci 1.6750 (- 2), sci (- 1.8251) (- 4)]"

definition calc_freeze_point :: "fluid \<Rightarrow> pyval \<Rightarrow> error + pyval" where
  "calc_freeze_point self x =
     and_then (py_lt x (Num 0.05)) (\<lambda>low.
       if low then Inr (Num 0)
       else
         and_then (check_concentration self x) (\<lambda>x.
           case x of
             PyNone \<Rightarrow> Inl TypeError
           | Num v \<Rightarrow>
               let c_pow = map (\<lambda>p. v ^ p) [0..<4] in
               Inr (Num (foldl (+) 0 (map (\<lambda>(i, j). i * j) (zip coefficient_freeze c_pow))))
           | NaN \<Rightarrow> Inr NaN))"

text \<open>
  Modelled from the spec: \<open>BaseMelinder.__init__\<close> (base_melinder.py, the parent class
  of \<open>EthylAlcohol\<close>, is not among the sources). The spec has the mixture's bounds and
  concentration (\<open>t_min, t_max, c_min, c_max, conc\<close>) supplied at construction and the
  concentration validated once there by the Range Guard, so the constructor hands its
  five arguments to \<open>BaseFluid.__init__\<close>.
\<close>

definition BaseMelinder_init :: "pyval \<Rightarrow> pyval \<Rightarrow> pyval \<Rightarrow> pyval \<Rightarrow> pyval \<Rightarrow> error + fluid" where
  "BaseMelinder_init tmin tmax x x_min x_max = BaseFluid_init tmin tmax x x_min x_max"

text \<open>
  \<open>EthylAlcohol.__init__(x)\<close>: the parent constructor with the fixed bounds, then the
  chained assignment of the freeze point and the two base values.
\<close>

definition EthylAlcohol_init :: "pyval \<Rightarrow> error + fluid" where
  "EthylAlcohol_init x =
     and_then (BaseMelinder_init (Num 0.0) (Num 40) x (Num 0.0) (Num 0.6)) (\<lambda>self.
     and_then (calc_freeze_point self x) (\<lambda>tf.
       let self = self\<lparr>t_min := Some tf, t_freeze := Some tf\<rparr>;
           self = self\<lparr>x_base := Some (Num 29.2361)\<rparr>;
           self = self\<lparr>t_base := Some (Num 8.1578)\<rparr>
       in Inr self))"

section \<open>Method calls on a constructed instance\<close>




section \<open>Evaluation lemmas\<close>

lemma and_then_Inr [simp]: "and_then (Inr v) f = f v"
  by (simp add: and_then_def)

lemma and_then_Inl [simp]: "and_then (Inl e) f = Inl e"
  by (simp add: and_then_def)

lemma getattr_Some [simp]: "getattr name (Some v) = Inr v"
  by (simp add: getattr_def)

lemma getattr_None [simp]: "getattr name None = Inl (AttributeError name)"
  by (simp add: getattr_def)

lemma check_temperature_Num:
  "t_min self = Some (Num lo) \<Longrightarrow> t_max self = Some (Num hi) \<Longrightarrow>
   check_temperature self (Num v) = Inr (Num (if v < lo then lo else if v > hi then hi else v))"
  by (simp add: check_temperature_def)

lemma check_concentration_Num:
  "c_min self = Some (Num lo) \<Longrightarrow> c_max self = Some (Num hi) \<Longrightarrow>
   check_concentration self (Num v) = Inr (Num (if v < lo then lo else if v > hi then hi else v))"
  by (simp add: check_concentration_def)

lemma BaseFluid_init_conc:
  "BaseFluid_init (Num tlo) (Num thi) (Num conc) (Num lo) (Num hi) =
     Inr (new_object\<lparr>t_min := Some (Num tlo), t_max := Some (Num thi),
            c_min := Some (Num lo), c_max := Some (Num hi),
            c := Some (Num (if conc < lo then lo else if conc > hi then hi else conc))\<rparr>)"
  by (simp add: BaseFluid_init_def set_temperature_limits_def set_concentration_def new_object_def)

lemma BaseFluid_init_no_conc:
  "BaseFluid_init (Num tlo) (Num thi) PyNone cmin cmax =
     Inr (new_object\<lparr>t_min := Some (Num tlo), t_max := Some (Num thi)\<rparr>)"
  by (simp add: BaseFluid_init_def set_temperature_limits_def new_object_def)

lemma BaseFluid_init_nan:
  "BaseFluid_init (Num tlo) (Num thi) NaN (Num lo) (Num hi) =
     Inr (new_object\<lparr>t_min := Some (Num tlo), t_max := Some (Num thi),
            c_min := Some (Num lo), c_max := Some (Num hi), c := Some NaN\<rparr>)"
  by (simp add: BaseFluid_init_def set_temperature_limits_def set_concentration_def new_object_def)



text \<open>Python's left-to-right \<open>sum\<close> over the zipped lists is the polynomial sum.\<close>

lemma freeze_sum:
  "foldl (+) 0 (map (\<lambda>(i, j). i * j) (zip coefficient_freeze (map (\<lambda>p. v ^ p) [0..<4])))
   = (\<Sum>n<length coefficient_freeze. coefficient_freeze ! n * v ^ n)"
  by (simp add: coefficient_freeze_def upt_rec lessThan_nat_numeral lessThan_Suc numeral_eq_Suc)

lemma calc_freeze_point_low:
  "x < 0.05 \<Longrightarrow> calc_freeze_point self (Num x) = Inr (Num 0)"
  by (simp add: calc_freeze_point_def)

lemma calc_freeze_point_high:
  assumes "0.05 \<le> x" and "c_min self = Some (Num lo)" and "c_max self = Some (Num hi)"
  shows "calc_freeze_point self (Num x) =
           Inr (Num (\<Sum>n<length coefficient_freeze. coefficient_freeze ! n *
                       (if x < lo then lo else if x > hi then hi else x) ^ n))"
proof -
  from assms(1) have "\<not> x < 0.05" by simp
  then show ?thesis
    unfolding calc_freeze_point_def
    by (simp only: py_lt.simps and_then_Inr if_False check_concentration_Num [OF assms(2,3)]
        pyval.case Let_def freeze_sum)
qed

lemma EthylAlcohol_init_eq:
  "EthylAlcohol_init (Num x) =
     Inr \<lparr>t_min = Some (Num (if x < 0.05 then 0 else
               \<Sum>n<length coefficient_freeze. coefficient_freeze ! n * (if x > 0.6 then 0.6 else x) ^ n)),
          t_max = Some (Num 40), c_min = Some (Num 0), c_max = Some (Num 0.6),
          c = Some (Num (if x < 0 then 0 else if x > 0.6 then 0.6 else x)),
          t_freeze = Some (Num (if x < 0.05 then 0 else
               \<Sum>n<length coefficient_freeze. coefficient_freeze ! n * (if x > 0.6 then 0.6 else x) ^ n)),
          x_base = Some (Num 29.2361), t_base = Some (Num 8.1578)\<rparr>"
proof (cases "x < 0.05")
  case True
  then show ?thesis
    by (simp add: EthylAlcohol_init_def BaseMelinder_init_def BaseFluid_init_conc
        calc_freeze_point_low new_object_def)
next
  case False
  then have "0.05 \<le> x" by simp
  then have "calc_freeze_point s (Num x) =
      Inr (Num (\<Sum>n<length coefficient_freeze. coefficient_freeze ! n * (if x > 0.6 then 0.6 else x) ^ n))"
    if "c_min s = Some (Num 0)" "c_max s = Some (Num 0.6)" for s
    using calc_freeze_point_high [of x s 0 "0.6"] that by simp
  with False show ?thesis
    by (simp add: EthylAlcohol_init_def BaseMelinder_init_def BaseFluid_init_conc new_object_def)
qed

lemma EthylAlcohol_init_nan:
  "EthylAlcohol_init NaN =
     Inr \<lparr>t_min = Some NaN, t_max = Some (Num 40), c_min = Some (Num 0), c_max = Some (Num 0.6),
          c = Some NaN, t_freeze = Some NaN,
          x_base = Some (Num 29.2361), t_base = Some (Num 8.1578)\<rparr>"
  by (simp add: EthylAlcohol_init_def BaseMelinder_init_def BaseFluid_init_nan
      calc_freeze_point_def check_concentration_def new_object_def)

section \<open>Construction-time bounds\<close>

text \<open>
  C1. The claim: constructing a fluid with \<open>t_min >= t_max\<close> (for example
  \<open>t_min=50, t_max=10\<close>) or with \<open>c_min >= c_max\<close> signals a configuration error
  and yields no instance. The constructor builds the \<open>ValueError\<close> and never raises
  it: evaluated at \<open>t_min=50, t_max=10\<close> it returns an instance holding the reversed
  temperature bounds, and at \<open>c_min=60, c_max=0\<close> an instance holding the reversed
  concentration bounds.
\<close>

theorem BaseFluid_init_reversed_bounds:
  "BaseFluid_init (Num 50) (Num 10) PyNone PyNone PyNone =
     Inr (new_object\<lparr>t_min := Some (Num 50), t_max := Some (Num 10)\<rparr>)
   \<and> BaseFluid_init (Num 0) (Num 100) (Num 30) (Num 60) (Num 0) =
     Inr (new_object\<lparr>t_min := Some (Num 0), t_max := Some (Num 100),
            c_min := Some (Num 60), c_max := Some (Num 0), c := Some (Num 60)\<rparr>)"
  by (simp add: BaseFluid_init_def set_temperature_limits_def set_concentration_def new_object_def)

section \<open>The runtime clamps\<close>

text \<open>
  C2. For every value and every pair of bounds \<open>lo < hi\<close> held by the instance, the
  clamp of a temperature, and in the same way the clamp of a concentration, returns
  \<open>lo\<close> for a value below \<open>lo\<close>, \<open>hi\<close> for a value above \<open>hi\<close> and the value
  itself otherwise; it returns normally (\<open>Inr\<close>), it never raises.
\<close>

theorem runtime_clamp:
  assumes "lo < hi"
  shows "(t_min self = Some (Num lo) \<and> t_max self = Some (Num hi) \<longrightarrow>
           check_temperature self (Num v) =
             Inr (Num (if v < lo then lo else if v > hi then hi else v)))
       \<and> (c_min self = Some (Num lo) \<and> c_max self = Some (Num hi) \<longrightarrow>
           check_concentration self (Num v) =
             Inr (Num (if v < lo then lo else if v > hi then hi else v)))"
  by (simp add: check_temperature_Num check_concentration_Num)

theorem runtime_clamp_witness:
  "check_temperature
     (new_object\<lparr>t_min := Some (Num 0), t_max := Some (Num 100)\<rparr>) (Num 150) = Inr (Num 100)
   \<and> check_temperature
     (new_object\<lparr>t_min := Some (Num 0), t_max := Some (Num 100)\<rparr>) (Num (- 5)) = Inr (Num 0)
   \<and> check_concentration
     (new_object\<lparr>c_min := Some (Num 0), c_max := Some (Num 0.6)\<rparr>) (Num 0.3) = Inr (Num 0.3)"
  using runtime_clamp [of 0 100 "new_object\<lparr>t_min := Some (Num 0), t_max := Some (Num 100)\<rparr>" 150]
    runtime_clamp [of 0 100 "new_object\<lparr>t_min := Some (Num 0), t_max := Some (Num 100)\<rparr>" "- 5"]
    runtime_clamp [of 0 "0.6" "new_object\<lparr>c_min := Some (Num 0), c_max := Some (Num 0.6)\<rparr>" "0.3"]
  by (simp add: new_object_def)

section \<open>Coefficient tables\<close>

text \<open>
  C3, as the spec words it: row \<open>i\<close> of every coefficient table has \<open>4 - i\<close> entries.
  Row 1 of the viscosity table has four entries, not three.
\<close>

theorem coefficient_rows_not_triangular:
  "length (coefficient_viscosity ! 1) \<noteq> 4 - 1"
  by (simp add: coefficient_viscosity_def)

text \<open>
  C3, amended. Each of the four coefficient tables of \<open>EthylAlcohol\<close> has six rows, of
  4, 4, 4, 3, 2 and 1 entries: the first row has four entries, and from the third row
  on each row is one entry shorter than the row before it.
\<close>

theorem coefficient_rows:
  "map length coefficient_viscosity = [4, 4, 4, 3, 2, 1]
   \<and> map length coefficient_specific_heat = [4, 4, 4, 3, 2, 1]
   \<and> map length coefficient_conductivity = [4, 4, 4, 3, 2, 1]
   \<and> map length coefficient_density = [4, 4, 4, 3, 2, 1]"
  by (simp add: coefficient_viscosity_def coefficient_specific_heat_def
      coefficient_conductivity_def coefficient_density_def)

section \<open>The freeze point\<close>

text \<open>
  C4. For every concentration \<open>x < 0.05\<close> the freeze point is 0, whatever the state of
  the instance. For every \<open>x >= 0.05\<close>, on an instance with bounds \<open>c_min\<close> and
  \<open>c_max\<close>, \<open>x\<close> is first clamped into the bounds by \<open>_check_concentration\<close> and
  the result is the sum, over \<open>n\<close> from 0 to the number of coefficients less one, of
  the \<open>n\<close>-th freeze coefficient times the \<open>n\<close>-th power of the clamped value.
\<close>

theorem calc_freeze_point_cases:
  "(x < 0.05 \<longrightarrow> calc_freeze_point self (Num x) = Inr (Num 0))
   \<and> (0.05 \<le> x \<and> c_min self = Some (Num lo) \<and> c_max self = Some (Num hi) \<longrightarrow>
        (let xc = (if x < lo then lo else if x > hi then hi else x) in
           check_concentration self (Num x) = Inr (Num xc)
           \<and> calc_freeze_point self (Num x) =
               Inr (Num (\<Sum>n<length coefficient_freeze. coefficient_freeze ! n * xc ^ n))))"
  by (simp add: calc_freeze_point_low calc_freeze_point_high check_concentration_Num Let_def)

theorem calc_freeze_point_cases_witness:
  "calc_freeze_point (new_object\<lparr>c_min := Some (Num 0), c_max := Some (Num 0.6)\<rparr>) (Num 0.01)
     = Inr (Num 0)
   \<and> calc_freeze_point (new_object\<lparr>c_min := Some (Num 0), c_max := Some (Num 0.6)\<rparr>) (Num 0.3)
     = Inr (Num (217422657223 / 100000000000))
   \<and> calc_freeze_point (new_object\<lparr>c_min := Some (Num 0), c_max := Some (Num 0.6)\<rparr>) (Num 0.9)
     = Inr (Num (23536732223 / 12500000000))"
  using
    calc_freeze_point_cases [of "0.01" "new_object\<lparr>c_min := Some (Num 0), c_max := Some (Num 0.6)\<rparr>" 0 "0.6"]
    calc_freeze_point_cases [of "0.3" "new_object\<lparr>c_min := Some (Num 0), c_max := Some (Num 0.6)\<rparr>" 0 "0.6"]
    calc_freeze_point_cases [of "0.9" "new_object\<lparr>c_min := Some (Num 0), c_max := Some (Num 0.6)\<rparr>" 0 "0.6"]
  by (simp add: new_object_def coefficient_freeze_def sci_def lessThan_nat_numeral lessThan_Suc
      numeral_eq_Suc Let_def)

text \<open>
  C5, as the spec words it: after construction with concentration \<open>x\<close>, \<open>t_min\<close> and
  \<open>t_freeze\<close> are the freeze-point polynomial evaluated at \<open>x\<close>. Constructed with
  \<open>x = 0.01\<close>, the instance has \<open>t_min = t_freeze = 0\<close>, while the polynomial at 0.01
  is 2.45864247481749. Constructed with \<open>x = 0.9\<close>, it holds the polynomial at 0.6, which
  differs from the polynomial at 0.9.
\<close>

theorem EthylAlcohol_init_not_polynomial:
  "EthylAlcohol_init (Num 0.01) =
     Inr \<lparr>t_min = Some (Num 0), t_max = Some (Num 40), c_min = Some (Num 0),
          c_max = Some (Num 0.6), c = Some (Num 0.01), t_freeze = Some (Num 0),
          x_base = Some (Num 29.2361), t_base = Some (Num 8.1578)\<rparr>
   \<and> coefficient_freeze ! 0 + coefficient_freeze ! 1 * 0.01 + coefficient_freeze ! 2 * 0.01 ^ 2
       + coefficient_freeze ! 3 * 0.01 ^ 3 = (2.45864247481749 :: real)
   \<and> (0 :: real) \<noteq> 2.45864247481749
   \<and> EthylAlcohol_init (Num 0.9) =
     Inr \<lparr>t_min = Some (Num (23536732223 / 12500000000)), t_max = Some (Num 40),
          c_min = Some (Num 0), c_max = Some (Num 0.6), c = Some (Num 0.6),
          t_freeze = Some (Num (23536732223 / 12500000000)),
          x_base = Some (Num 29.2361), t_base = Some (Num 8.1578)\<rparr>
   \<and> coefficient_freeze ! 0 + coefficient_freeze ! 1 * 0.9 + coefficient_freeze ! 2 * 0.9 ^ 2
       + coefficient_freeze ! 3 * 0.9 ^ 3 \<noteq> (23536732223 / 12500000000 :: real)"
  by (simp add: EthylAlcohol_init_eq coefficient_freeze_def sci_def lessThan_nat_numeral
      lessThan_Suc numeral_eq_Suc)

text \<open>
  C5, amended. For every concentration \<open>x\<close>, constructing the mixture succeeds, and
  afterwards \<open>t_min\<close> and \<open>t_freeze\<close> both hold the freeze-point result for \<open>x\<close>, the
  value \<open>calc_freeze_point\<close> returns on the instance: 0 when \<open>x < 0.05\<close>, otherwise
  the freeze-point polynomial evaluated at \<open>x\<close> clamped into the mixture's bounds, that
  is at \<open>x\<close> up to 0.6 and at 0.6 beyond; for \<open>x = nan\<close> both hold \<open>nan\<close>.
\<close>

theorem EthylAlcohol_init_freeze:
  "(\<exists>self tf. EthylAlcohol_init (Num x) = Inr self
     \<and> t_min self = Some tf \<and> t_freeze self = Some tf
     \<and> calc_freeze_point self (Num x) = Inr tf
     \<and> tf = Num (if x < 0.05 then 0 else
          \<Sum>n<length coefficient_freeze. coefficient_freeze ! n * (if x > 0.6 then 0.6 else x) ^ n))
   \<and> (\<exists>self. EthylAlcohol_init NaN = Inr self
     \<and> t_min self = Some NaN \<and> t_freeze self = Some NaN
     \<and> calc_freeze_point self NaN = Inr NaN)"
proof (cases "x < 0.05")
  case True
  then show ?thesis
    by (simp add: EthylAlcohol_init_eq EthylAlcohol_init_nan calc_freeze_point_low)
      (simp add: calc_freeze_point_def check_concentration_def)
next
  case False
  then have "0.05 \<le> x" by simp
  with False show ?thesis
    by (simp add: EthylAlcohol_init_eq EthylAlcohol_init_nan
        calc_freeze_point_high [of x _ 0 "0.6"])
      (simp add: calc_freeze_point_def check_concentration_def)
qed

section \<open>Derived properties and aliases\<close>

text \<open>
  C6. For every fluid and every temperature \<open>t\<close> at which the three property methods
  return numbers, \<open>prandtl(t)\<close> is \<open>specific_heat(t) * viscosity(t) / conductivity(t)\<close>.
  The division is not guarded: with a zero conductivity it is Python's division by zero,
  which raises \<open>ZeroDivisionError\<close>.
\<close>

theorem prandtl_value:
  assumes "specific_heat M self t = Inr (Num a)"
      and "viscosity M self t = Inr (Num b)"
      and "conductivity M self t = Inr (Num d)"
  shows "prandtl M self t = (if d = 0 then Inl ZeroDivisionError else Inr (Num (a * b / d)))"
  using assms by (simp add: prandtl_def cp_def mu_def k_def)

theorem prandtl_value_witness:
  "prandtl \<lparr>viscosity = (\<lambda>_ _. Inr (Num 2)), specific_heat = (\<lambda>_ _. Inr (Num 3)),
             density = (\<lambda>_ _. Inr (Num 5)), conductivity = (\<lambda>_ T. Inr T)\<rparr>
     new_object (Num 4) = Inr (Num (3 / 2))
   \<and> prandtl \<lparr>viscosity = (\<lambda>_ _. Inr (Num 2)), specific_heat = (\<lambda>_ _. Inr (Num 3)),
             density = (\<lambda>_ _. Inr (Num 5)), conductivity = (\<lambda>_ T. Inr T)\<rparr>
     new_object (Num 0) = Inl ZeroDivisionError"
  using prandtl_value [of "\<lparr>viscosity = (\<lambda>_ _. Inr (Num 2)), specific_heat = (\<lambda>_ _. Inr (Num 3)),
             density = (\<lambda>_ _. Inr (Num 5)), conductivity = (\<lambda>_ T. Inr T)\<rparr>" new_object "Num 4" 3 2 4]
    prandtl_value [of "\<lparr>viscosity = (\<lambda>_ _. Inr (Num 2)), specific_heat = (\<lambda>_ _. Inr (Num 3)),
             density = (\<lambda>_ _. Inr (Num 5)), conductivity = (\<lambda>_ T. Inr T)\<rparr>" new_object "Num 0" 3 2 0]
  by simp

text \<open>
  C7. For every fluid and every temperature \<open>t\<close> at which the three property methods
  return numbers, \<open>thermal_diffusivity(t)\<close> is
  \<open>conductivity(t) / (density(t) * specific_heat(t))\<close>. The denominator is not guarded:
  when it is zero the division raises \<open>ZeroDivisionError\<close>.
\<close>

theorem thermal_diffusivity_value:
  assumes "conductivity M self t = Inr (Num a)"
      and "density M self t = Inr (Num b)"
      and "specific_heat M self t = Inr (Num d)"
  shows "thermal_diffusivity M self t =
           (if b * d = 0 then Inl ZeroDivisionError else Inr (Num (a / (b * d))))"
  using assms by (simp add: thermal_diffusivity_def cp_def rho_def k_def)

theorem thermal_diffusivity_value_witness:
  "thermal_diffusivity \<lparr>viscosity = (\<lambda>_ _. Inr (Num 2)), specific_heat = (\<lambda>_ _. Inr (Num 3)),
             density = (\<lambda>_ T. Inr T), conductivity = (\<lambda>_ _. Inr (Num 6))\<rparr>
     new_object (Num 4) = Inr (Num (1 / 2))
   \<and> thermal_diffusivity \<lparr>viscosity = (\<lambda>_ _. Inr (Num 2)), specific_heat = (\<lambda>_ _. Inr (Num 3)),
             density = (\<lambda>_ T. Inr T), conductivity = (\<lambda>_ _. Inr (Num 6))\<rparr>
     new_object (Num 0) = Inl ZeroDivisionError"
  using thermal_diffusivity_value [of "\<lparr>viscosity = (\<lambda>_ _. Inr (Num 2)), specific_heat = (\<lambda>_ _. Inr (Num 3)),
             density = (\<lambda>_ T. Inr T), conductivity = (\<lambda>_ _. Inr (Num 6))\<rparr>" new_object "Num 4" 6 4 3]
    thermal_diffusivity_value [of "\<lparr>viscosity = (\<lambda>_ _. Inr (Num 2)), specific_heat = (\<lambda>_ _. Inr (Num 3)),
             density = (\<lambda>_ T. Inr T), conductivity = (\<lambda>_ _. Inr (Num 6))\<rparr>" new_object "Num 0" 6 0 3]
  by simp

text \<open>
  C8. For every fluid and every temperature argument \<open>t\<close>, so in particular for every
  \<open>t\<close> between \<open>t_min\<close> and \<open>t_max\<close>, each shorthand returns what the named property
  returns, value or exception: \<open>mu\<close> is \<open>viscosity\<close>, \<open>cp\<close> is \<open>specific_heat\<close>,
  \<open>rho\<close> is \<open>density\<close>, \<open>k\<close> is \<open>conductivity\<close>, \<open>pr\<close> is \<open>prandtl\<close> (at 0.0
  when called without an argument) and \<open>alpha\<close> is \<open>thermal_diffusivity\<close>.
\<close>

theorem alias_equivalence:
  "mu M self t = viscosity M self t
   \<and> cp M self t = specific_heat M self t
   \<and> rho M self t = density M self t
   \<and> k M self t = conductivity M self t
   \<and> pr M self t = prandtl M self t
   \<and> pr_default M self = prandtl M self (Num 0.0)
   \<and> alpha M self t = thermal_diffusivity M self t"
  by (simp add: mu_def cp_def rho_def k_def pr_def pr_default_def alpha_def)

section \<open>The stored concentration\<close>




text \<open>
  C10. A fluid constructed without a concentration (\<open>conc\<close> omitted, that is \<open>None\<close>)
  has none of the attributes \<open>c_min\<close>, \<open>c_max\<close> and \<open>c\<close>, whatever was passed as
  bounds, and \<open>_check_concentration\<close> on it fails with the missing-attribute error for
  every argument. On a fluid constructed with a concentration and numeric bounds,
  \<open>_check_concentration\<close> returns a number for every numeric argument.
\<close>

theorem no_concentration_state:
  "(\<exists>self. BaseFluid_init (Num tlo) (Num thi) PyNone cmin cmax = Inr self
       \<and> c_min self = None \<and> c_max self = None \<and> c self = None
       \<and> (\<forall>conc. check_concentration self conc = Inl (AttributeError ''c_min'')))
   \<and> (\<exists>self. BaseFluid_init (Num tlo) (Num thi) (Num conc) (Num lo) (Num hi) = Inr self
       \<and> (\<forall>v. \<exists>r. check_concentration self (Num v) = Inr (Num r)))"
  by (simp add: BaseFluid_init_conc BaseFluid_init_no_conc new_object_def
      check_concentration_def check_concentration_Num)

end
